theory Spec2Isabelle
  imports Main
begin

section \<open>Python strings\<close>

text \<open>
  A Python \<^verbatim>\<open>str\<close> is a sequence of Unicode code points, so it is modelled as a list of
  natural numbers (one per code point), not as a list of bytes. ASCII literals of the
  source are written with \<open>ascii\<close>; the accented letters of the source (all in NFC, one
  code point each) are written as their code points.
\<close>

type_synonym pystr = "nat list"

definition ascii :: "string \<Rightarrow> pystr" where
  "ascii = map of_char"

text \<open>\<^verbatim>\<open>w in s\<close> on strings: \<open>w\<close> occurs in \<open>s\<close> as a contiguous substring.\<close>

fun startswith :: "pystr \<Rightarrow> pystr \<Rightarrow> bool" where
  "startswith s [] = True"
| "startswith [] (x # xs) = False"
| "startswith (c # cs) (x # xs) = (c = x \<and> startswith cs xs)"

fun str_in :: "pystr \<Rightarrow> pystr \<Rightarrow> bool" where
  "str_in w [] = (w = [])"
| "str_in w (c # cs) = (startswith (c # cs) w \<or> str_in w cs)"

text \<open>
  \<^verbatim>\<open>str.lower()\<close>. On the ASCII range the mapping is fixed: \<open>A\<close>..\<open>Z\<close> go to
  \<open>a\<close>..\<open>z\<close> and every other ASCII code point stays. Beyond ASCII the result comes from
  the case-mapping tables of the Python runtime, which may give several code points for
  one and, for the capital sigma, depends on the neighbours; those tables are not part of
  the repository, so they are a parameter: \<open>ucd s i\<close> is the lower-cased form of the
  non-ASCII code point at index \<open>i\<close> of \<open>s\<close>.
\<close>

type_synonym casemap = "pystr \<Rightarrow> nat \<Rightarrow> pystr"

definition ascii_lower :: "nat \<Rightarrow> nat" where
  "ascii_lower c = (if 65 \<le> c \<and> c \<le> 90 then c + 32 else c)"

definition lower_at :: "casemap \<Rightarrow> pystr \<Rightarrow> nat \<times> nat \<Rightarrow> pystr" where
  "lower_at ucd s ic = (if snd ic < 128 then [ascii_lower (snd ic)] else ucd s (fst ic))"

definition str_lower :: "casemap \<Rightarrow> pystr \<Rightarrow> pystr" where
  "str_lower ucd s = concat (map (lower_at ucd s) (enumerate 0 s))"

text \<open>A case mapping that leaves every non-ASCII code point as it is, for concrete runs.\<close>

definition ucd_keep :: casemap where
  "ucd_keep s i = [s ! i]"

text \<open>
  \<^verbatim>\<open>str.strip()\<close> without arguments removes leading and trailing whitespace; \<open>isspace\<close> is
  the whitespace table of the Python runtime.
\<close>

definition isspace :: "nat \<Rightarrow> bool" where
  "isspace c = ((9 \<le> c \<and> c \<le> 13) \<or> (28 \<le> c \<and> c \<le> 32) \<or> c = 133 \<or> c = 160 \<or> c = 5760
     \<or> (8192 \<le> c \<and> c \<le> 8202) \<or> c = 8232 \<or> c = 8233 \<or> c = 8239 \<or> c = 8287 \<or> c = 12288)"

definition strip :: "pystr \<Rightarrow> pystr" where
  "strip s = rev (dropWhile isspace (rev (dropWhile isspace s)))"


section \<open>Category labels and keywords\<close>

text \<open>
  The source names the six categories by string labels. The specification calls them
  WEDDING, SEMINAR, EXPO, CREATIVITY, BUDGET and PLANNING.
\<close>

definition MARIAGE :: pystr where "MARIAGE = ascii ''MARIAGE''"
definition SEMINAIRE :: pystr where "SEMINAIRE = ascii ''SEMINAIRE''"
definition SALON :: pystr where "SALON = ascii ''SALON''"
definition CREATIVITE :: pystr where
  "CREATIVITE = ascii ''CR'' @ [201] @ ascii ''ATIVIT'' @ [201]"
definition BUDGET :: pystr where "BUDGET = ascii ''BUDGET''"
definition PLANIFICATION :: pystr where "PLANIFICATION = ascii ''PLANIFICATION''"

abbreviation (input) WEDDING :: pystr where "WEDDING \<equiv> MARIAGE"
abbreviation (input) SEMINAR :: pystr where "SEMINAR \<equiv> SEMINAIRE"
abbreviation (input) EXPO :: pystr where "EXPO \<equiv> SALON"
abbreviation (input) CREATIVITY :: pystr where "CREATIVITY \<equiv> CREATIVITE"
abbreviation (input) PLANNING :: pystr where "PLANNING \<equiv> PLANIFICATION"

text \<open>The keywords of the question rules that have a letter outside ASCII.\<close>

definition fiancailles :: pystr where
  "fiancailles = ascii ''fian'' @ [231] @ ascii ''ailles''"
definition theme_accent :: pystr where
  "theme_accent = ascii ''th'' @ [232] @ ascii ''me''"
definition decoration :: pystr where
  "decoration = ascii ''d'' @ [233] @ ascii ''coration''"
definition idees_accent :: pystr where
  "idees_accent = ascii ''id'' @ [233] @ ascii ''es''"
definition creatif_accent :: pystr where
  "creatif_accent = ascii ''cr'' @ [233] @ ascii ''atif''"
definition cout :: pystr where
  "cout = ascii ''co'' @ [251] @ ascii ''t''"
definition etapes :: pystr where
  "etapes = [233] @ ascii ''tapes''"

section \<open>The category classifier\<close>

definition detect_type_from_filename :: "casemap \<Rightarrow> pystr \<Rightarrow> pystr" where
  "detect_type_from_filename ucd filename =
     (let fname = str_lower ucd filename in
      if str_in (ascii ''mariage'') fname then MARIAGE
      else if str_in (ascii ''logistique'') fname \<or> str_in (ascii ''conference'') fname
        then SEMINAIRE
      else if str_in (ascii ''salon'') fname then SALON
      else if str_in (ascii ''theme'') fname \<or> str_in (ascii ''idee'') fname
           \<or> str_in (ascii ''creatif'') fname \<or> str_in (ascii ''ambiance'') fname
        then CREATIVITE
      else if str_in (ascii ''budget'') fname \<or> str_in (ascii ''finance'') fname then BUDGET
      else if str_in (ascii ''planning'') fname \<or> str_in (ascii ''programme'') fname
        then PLANIFICATION
      else SEMINAIRE)"

text \<open>\<^verbatim>\<open>any(word in q for word in words)\<close>.\<close>

definition any_in :: "pystr list \<Rightarrow> pystr \<Rightarrow> bool" where
  "any_in words q = list_ex (\<lambda>word. str_in word q) words"

definition detect_event_type :: "casemap \<Rightarrow> pystr \<Rightarrow> pystr" where
  "detect_event_type ucd question =
     (let q = str_lower ucd question in
      if any_in [ascii ''mariage'', ascii ''noces'', fiancailles] q then MARIAGE
      else if any_in [ascii ''salon'', ascii ''exposition'', ascii ''stand''] q then SALON
      else if any_in [ascii ''ambiance'', theme_accent, decoration, idees_accent,
                      creatif_accent] q
        then CREATIVITE
      else if any_in [ascii ''budget'', ascii ''financement'', cout, ascii ''prix''] q
        then BUDGET
      else if any_in [ascii ''planning'', ascii ''planification'', etapes,
                      ascii ''programme''] q
        then PLANIFICATION
      else SEMINAIRE)"

subsection \<open>The rule tables of the specification\<close>

text \<open>
  The specification describes both classifiers as an ordered table of
  (keyword set, category) rules, read top to bottom: the first rule one of whose keywords
  occurs in the lower-cased text gives the category, and SEMINAR is the answer when no rule
  matches. \<open>first_match\<close> and the two tables follow those words; the classifiers above
  follow the source.
\<close>

type_synonym rule = "pystr list \<times> pystr"

fun first_match :: "rule list \<Rightarrow> pystr \<Rightarrow> pystr" where
  "first_match [] s = SEMINAR"
| "first_match (r # rs) s = (if any_in (fst r) s then snd r else first_match rs s)"

definition filename_rules :: "rule list" where
  "filename_rules =
     [([ascii ''mariage''], WEDDING),
      ([ascii ''logistique'', ascii ''conference''], SEMINAR),
      ([ascii ''salon''], EXPO),
      ([ascii ''theme'', ascii ''idee'', ascii ''creatif'', ascii ''ambiance''], CREATIVITY),
      ([ascii ''budget'', ascii ''finance''], BUDGET),
      ([ascii ''planning'', ascii ''programme''], PLANNING)]"

definition question_rules :: "rule list" where
  "question_rules =
     [([ascii ''mariage'', ascii ''noces'', fiancailles], WEDDING),
      ([ascii ''salon'', ascii ''exposition'', ascii ''stand''], EXPO),
      ([ascii ''ambiance'', theme_accent, decoration, idees_accent, creatif_accent],
       CREATIVITY),
      ([ascii ''budget'', ascii ''financement'', cout, ascii ''prix''], BUDGET),
      ([ascii ''planning'', ascii ''planification'', etapes, ascii ''programme''],
       PLANNING)]"





section \<open>Exceptions\<close>

text \<open>
  The two handlers of the source are \<^verbatim>\<open>except Exception as e\<close>. A failing collaborator call
  is modelled as the error side of a sum, carrying the exception; \<open>str_of\<close> is \<^verbatim>\<open>str(e)\<close>,
  the message the handlers print. The type stands for the instances of \<^verbatim>\<open>Exception\<close>, the
  class the handlers name.
\<close>

datatype exn = Exception pystr

fun str_of :: "exn \<Rightarrow> pystr" where
  "str_of (Exception msg) = msg"

section \<open>The document store and the ingestion\<close>

text \<open>A row of the table \<^verbatim>\<open>documents(id, title, content, type)\<close>.\<close>

record document_row =
  doc_id :: nat
  doc_title :: pystr
  doc_content :: pystr
  doc_type :: pystr






definition PDF_PATHS :: "pystr list" where
  "PDF_PATHS =
     [ascii ''pdfs/idees_themes.pdf'',
      ascii ''pdfs/budget_mariage.pdf'',
      ascii ''pdfs/logistique_conference.pdf'',
      ascii ''pdfs/planning_evenement.pdf'',
      ascii ''pdfs/to do list mariage.pdf'']"






section \<open>Documents and the retriever\<close>

record document =
  page_content :: pystr
  metadata :: "(pystr \<times> pystr) list"

definition load_documents_from_db :: "document_row list \<Rightarrow> document list" where
  "load_documents_from_db rows =
     map (\<lambda>row. \<lparr>page_content = doc_content row,
                 metadata = [(ascii ''title'', doc_title row), (ascii ''type'', doc_type row)]\<rparr>)
       rows"

definition dummy_doc :: document where
  "dummy_doc =
     \<lparr>page_content =
        ascii ''Bienvenue sur EventBot Pro. Aucun document n'est encore disponible.'',
      metadata = [(ascii ''title'', ascii ''Bienvenue''), (ascii ''type'', SEMINAIRE)]\<rparr>"

text \<open>
  \<^verbatim>\<open>create_retriever\<close>. The text splitter (chunks of 800 with overlap 150) and the vector
  store (the index over the chunks and its retriever, \<open>k = 3\<close>) are library code: the
  parameters \<open>split_documents\<close> and \<open>from_documents\<close>.
\<close>

definition create_retriever :: "(document list \<Rightarrow> 'c list) \<Rightarrow> ('c list \<Rightarrow> 'r) \<Rightarrow> document_row list \<Rightarrow> 'r" where
  "create_retriever split_documents from_documents rows =
     (let all_docs = load_documents_from_db rows in
      if all_docs \<noteq> [] then from_documents (split_documents all_docs)
      else from_documents (split_documents [dummy_doc]))"

section \<open>Prompts\<close>

record prompt_template =
  input_variables :: "pystr list"
  template :: pystr

definition budget_template :: pystr where
  "budget_template =
     ascii ''\<newline>'' @ ascii ''Tu es eventbot, expert en gestion financi'' @ [232] @
     ascii ''re d'' @ [39, 233] @ ascii ''v'' @ [233] @ ascii ''nements.\<newline>'' @
     ascii ''Fais une estimation claire et strat'' @ [233] @
     ascii ''gique selon le contexte.\<newline>'' @ ascii ''\<newline>'' @ [128218] @
     ascii '' CONTEXTE:\<newline>'' @ ascii ''{context}\<newline>'' @
     ascii ''\<newline>'' @ [10067] @ ascii '' QUESTION:\<newline>'' @
     ascii ''{question}\<newline>'' @ ascii ''\<newline>'' @ [128176] @
     ascii '' BUDGET:\<newline>''"

definition planification_template :: pystr where
  "planification_template =
     ascii ''\<newline>'' @ ascii ''Tu es eventbot, expert en planification d'' @ [233] @
     ascii ''taill'' @ [233] @ ascii ''e d'' @ [39, 233] @ ascii ''v'' @ [233] @
     ascii ''nements.\<newline>'' @ ascii ''\<newline>'' @ [128218] @
     ascii '' CONTEXTE:\<newline>'' @ ascii ''{context}\<newline>'' @
     ascii ''\<newline>'' @ [10067] @ ascii '' QUESTION:\<newline>'' @
     ascii ''{question}\<newline>'' @ ascii ''\<newline>'' @ [128197] @
     ascii '' PLAN D'ACTION:\<newline>''"

definition seminaire_template :: pystr where
  "seminaire_template =
     ascii ''\<newline>'' @ ascii ''Tu es eventbot , sp'' @ [233] @
     ascii ''cialiste de l'organisation de s'' @ [233] @
     ascii ''minaires professionnels.\<newline>'' @
     ascii ''Base-toi sur le contexte fourni pour r'' @ [233] @ ascii ''pondre '' @ [224] @
     ascii '' la question suivante.\<newline>'' @ ascii ''\<newline>'' @ [128218] @
     ascii '' CONTEXTE:\<newline>'' @ ascii ''{context}\<newline>'' @
     ascii ''\<newline>'' @ [10067] @ ascii '' QUESTION:\<newline>'' @
     ascii ''{question}\<newline>'' @ ascii ''\<newline>'' @ [9989] @ ascii '' R'' @
     [201] @ ascii ''PONSE:\<newline>''"

definition mariage_template :: pystr where
  "mariage_template =
     ascii ''\<newline>'' @
     ascii ''Tu es eventbot, un expert de l'organisation de mariages inoubliables.\<newline>'' @
     ascii ''\<newline>'' @ [128218] @ ascii '' CONTEXTE:\<newline>'' @
     ascii ''{context}\<newline>'' @ ascii ''\<newline>'' @ [10067] @
     ascii '' QUESTION:\<newline>'' @ ascii ''{question}\<newline>'' @
     ascii ''\<newline>'' @ [128150] @ ascii '' CONSEIL:\<newline>''"

definition salon_template :: pystr where
  "salon_template =
     ascii ''\<newline>'' @
     ascii ''Tu es eventbot, expert des salons et expositions.\<newline>'' @
     ascii ''\<newline>'' @ [128218] @ ascii '' CONTEXTE:\<newline>'' @
     ascii ''{context}\<newline>'' @ ascii ''\<newline>'' @ [10067] @
     ascii '' QUESTION:\<newline>'' @ ascii ''{question}\<newline>'' @
     ascii ''\<newline>'' @ [127970] @ ascii '' STRAT'' @ [201] @ ascii ''GIE:\<newline>''"

definition creativite_template :: pystr where
  "creativite_template =
     ascii ''\<newline>'' @ ascii ''Tu es eventbot, un expert en id'' @ [233] @
     ascii ''es th'' @ [233] @ ascii ''matiques et concepts d'ambiance.\<newline>'' @
     ascii ''\<newline>'' @ [128218] @ ascii '' CONTEXTE:\<newline>'' @
     ascii ''{context}\<newline>'' @ ascii ''\<newline>'' @ [10067] @
     ascii '' QUESTION:\<newline>'' @ ascii ''{question}\<newline>'' @
     ascii ''\<newline>'' @ [10024] @ ascii '' ID'' @ [201] @ ascii ''ES:\<newline>''"

definition prompt_for :: "pystr \<Rightarrow> prompt_template" where
  "prompt_for text =
     \<lparr>input_variables = [ascii ''context'', ascii ''question''], template = text\<rparr>"

definition prompt_map :: "(pystr \<times> prompt_template) list" where
  "prompt_map =
     [(BUDGET, prompt_for budget_template),
      (PLANIFICATION, prompt_for planification_template),
      (SEMINAIRE, prompt_for seminaire_template),
      (MARIAGE, prompt_for mariage_template),
      (SALON, prompt_for salon_template),
      (CREATIVITE, prompt_for creativite_template)]"

text \<open>\<^verbatim>\<open>d.get(k, default)\<close> and \<^verbatim>\<open>d[k]\<close> on a dictionary given by its items.\<close>

definition dict_get :: "('k \<times> 'v) list \<Rightarrow> 'k \<Rightarrow> 'v \<Rightarrow> 'v" where
  "dict_get d k dflt = (case map_of d k of None \<Rightarrow> dflt | Some v \<Rightarrow> v)"

definition default_prompt :: prompt_template where
  "default_prompt = the (map_of prompt_map SEMINAIRE)"

section \<open>Answering a question\<close>

text \<open>
  The question-answering chain is one object shared by all calls. Its state here: the
  prompt field that \<^verbatim>\<open>ask_question\<close> assigns
  (\<^verbatim>\<open>qa_chain.combine_documents_chain.llm_chain.prompt\<close>), the calls of \<^verbatim>\<open>qa_chain.invoke\<close> made
  so far (each with the prompt bound when it ran and its question) and the lines printed.
\<close>

record chain =
  chain_prompt :: prompt_template
  chain_calls :: "(prompt_template \<times> pystr) list"
  chain_stdout :: "pystr list"

text \<open>
  \<^verbatim>\<open>qa_chain.invoke\<close> is the retrieval and generation collaborator: from the prompt bound in
  the chain and the question it gives a result dictionary or raises.
\<close>

type_synonym invoker = "prompt_template \<Rightarrow> pystr \<Rightarrow> exn + (pystr \<times> pystr) list"

record message =
  role :: pystr
  content :: pystr

definition initial_chain :: chain where
  "initial_chain = \<lparr>chain_prompt = default_prompt, chain_calls = [], chain_stdout = []\<rparr>"

text \<open>The assignment to the prompt field of the shared chain.\<close>

definition bind_prompt :: "casemap \<Rightarrow> pystr \<Rightarrow> chain \<Rightarrow> chain" where
  "bind_prompt ucd question ch =
     (let event_type = detect_event_type ucd question
      in ch\<lparr>chain_prompt := dict_get prompt_map event_type default_prompt\<rparr>)"

text \<open>
  The \<^verbatim>\<open>try\<close> statement when the chain raises only instances of \<^verbatim>\<open>Exception\<close> and the
  print of the handler succeeds: the call of the chain, the answer taken from its result,
  and the fixed answer of the handler. The call with every exception is \<open>ask_question_exc\<close>
  below, which agrees with this one in that case.
\<close>

definition generate :: "invoker \<Rightarrow> pystr \<Rightarrow> chain \<Rightarrow> pystr \<times> chain" where
  "generate invoke question ch =
     (let ch' = ch\<lparr>chain_calls := chain_calls ch @ [(chain_prompt ch, question)]\<rparr>
      in case invoke (chain_prompt ch) question of
           Inr result \<Rightarrow>
             (dict_get result (ascii ''result'')
                (ascii ''Je n'ai pas de r'' @ [233] @ ascii ''ponse.''), ch')
         | Inl e \<Rightarrow>
             (ascii ''Erreur lors de la g'' @ [233] @ ascii ''n'' @ [233] @ ascii ''ration.'',
              ch'\<lparr>chain_stdout := chain_stdout ch' @ [ascii ''Erreur : '' @ str_of e]\<rparr>))"

definition ask_question :: "casemap \<Rightarrow> invoker \<Rightarrow> pystr \<Rightarrow> message list \<Rightarrow> chain \<Rightarrow> message list \<times> pystr \<times> chain" where
  "ask_question ucd invoke question chat_display ch =
     (if strip question = []
      then (chat_display, [10071] @ ascii '' Entrez une question.'', ch)
      else (case generate invoke question (bind_prompt ucd question ch) of
              (answer, ch') \<Rightarrow>
                (chat_display @ [\<lparr>role = ascii ''user'', content = question\<rparr>,
                                 \<lparr>role = ascii ''assistant'', content = answer\<rparr>],
                 [], ch')))"

definition clear_chat :: "message list \<times> pystr" where
  "clear_chat = ([], [])"

section \<open>Concrete collaborators and environments\<close>

text \<open>
  Two collaborators for concrete runs: one whose every call raises, and one that answers
  every question with the same text.
\<close>

definition failing_invoke :: invoker where
  "failing_invoke p question = Inl (Exception (ascii ''connection refused''))"

definition fixed_invoke :: invoker where
  "fixed_invoke p question = Inr [(ascii ''result'', ascii ''Voici un plan.'')]"

section \<open>The documents under the index, in the words of the specification\<close>

text \<open>
  The specification: over an empty store the index is built over one placeholder document,
  otherwise over all stored documents.
\<close>

definition index_input :: "document_row list \<Rightarrow> document list" where
  "index_input rows = (if rows = [] then [dummy_doc] else load_documents_from_db rows)"




section \<open>Exceptions that pass the handlers\<close>

text \<open>
  Both handlers of the source are \<^verbatim>\<open>except Exception\<close>: an exception outside the class
  \<^verbatim>\<open>Exception\<close> (\<^verbatim>\<open>KeyboardInterrupt\<close>, \<^verbatim>\<open>SystemExit\<close>) passes them. What a call raises is
  an instance of \<^verbatim>\<open>Exception\<close> or an exception outside that class, given by the name of
  its class.
\<close>

datatype raised = Of_Exception exn | Not_Exception pystr







text \<open>
  The chain with every exception, and the \<^verbatim>\<open>try\<close> statement of \<^verbatim>\<open>ask_question\<close>: the handler
  takes the instances of \<^verbatim>\<open>Exception\<close> and prints the error, and that print can raise.
\<close>

type_synonym invoker_exc = "prompt_template \<Rightarrow> pystr \<Rightarrow> raised + (pystr \<times> pystr) list"

definition generate_exc :: "invoker_exc \<Rightarrow> (pystr \<Rightarrow> raised option) \<Rightarrow> pystr \<Rightarrow> chain \<Rightarrow> (raised + pystr) \<times> chain" where
  "generate_exc invoke print_raises question ch =
     (let ch' = ch\<lparr>chain_calls := chain_calls ch @ [(chain_prompt ch, question)]\<rparr>
      in case invoke (chain_prompt ch) question of
           Inr result \<Rightarrow>
             (Inr (dict_get result (ascii ''result'')
                (ascii ''Je n'ai pas de r'' @ [233] @ ascii ''ponse.'')), ch')
         | Inl (Not_Exception n) \<Rightarrow> (Inl (Not_Exception n), ch')
         | Inl (Of_Exception e) \<Rightarrow>
             (case print_raises (ascii ''Erreur : '' @ str_of e) of
                Some x \<Rightarrow> (Inl x, ch')
              | None \<Rightarrow>
                  (Inr (ascii ''Erreur lors de la g'' @ [233] @ ascii ''n'' @ [233]
                        @ ascii ''ration.''),
                   ch'\<lparr>chain_stdout := chain_stdout ch' @ [ascii ''Erreur : '' @ str_of e]\<rparr>)))"

text \<open>
  \<^verbatim>\<open>ask_question\<close> with every exception. The result is the exception that leaves the
  function or the status it returns, the list \<^verbatim>\<open>chat_display\<close> after the call (the list is
  changed in place and is the history the function returns) and the chain after the call.
\<close>

definition ask_question_exc :: "casemap \<Rightarrow> invoker_exc \<Rightarrow> (pystr \<Rightarrow> raised option) \<Rightarrow> pystr \<Rightarrow> message list \<Rightarrow> chain \<Rightarrow> (raised + pystr) \<times> message list \<times> chain" where
  "ask_question_exc ucd invoke print_raises question chat_display ch =
     (if strip question = []
      then (Inr ([10071] @ ascii '' Entrez une question.''), chat_display, ch)
      else (case generate_exc invoke print_raises question (bind_prompt ucd question ch) of
              (Inl x, ch') \<Rightarrow> (Inl x, chat_display, ch')
            | (Inr answer, ch') \<Rightarrow>
                (Inr [],
                 chat_display @ [\<lparr>role = ascii ''user'', content = question\<rparr>,
                                 \<lparr>role = ascii ''assistant'', content = answer\<rparr>],
                 ch')))"


definition lift_invoke :: "invoker \<Rightarrow> invoker_exc" where
  "lift_invoke invoke p question =
     (case invoke p question of Inl e \<Rightarrow> Inl (Of_Exception e) | Inr result \<Rightarrow> Inr result)"

text \<open>
  For concrete runs: a \<^verbatim>\<open>print\<close> that never raises and one on an output that cannot encode
  code points above 255; chains that are interrupted from the keyboard or raise an error
  whose message holds a cross mark; environments in which the loader is interrupted on
  \<open>pdfs/budget_mariage.pdf\<close>, in which the output is the narrow one, and in which every
  file holds a lone surrogate that the \<^verbatim>\<open>INSERT\<close> statement cannot bind.
\<close>

definition quiet_print :: "pystr \<Rightarrow> raised option" where
  "quiet_print line = None"

definition narrow_print :: "pystr \<Rightarrow> raised option" where
  "narrow_print line =
     (if list_ex (\<lambda>c. 255 < c) line
      then Some (Of_Exception (Exception (ascii ''codec cannot encode character'')))
      else None)"

definition interrupt_invoke :: invoker_exc where
  "interrupt_invoke p question = Inl (Not_Exception (ascii ''KeyboardInterrupt''))"

definition unfound_invoke :: invoker_exc where
  "unfound_invoke p question =
     Inl (Of_Exception (Exception ([10060] @ ascii '' model not found'')))"




section \<open>Properties of the string operations\<close>

lemma startswith_iff: "startswith s w \<longleftrightarrow> (\<exists>b. s = w @ b)"
  by (induction s w rule: startswith.induct) auto

lemma str_in_iff: "str_in w s \<longleftrightarrow> (\<exists>a b. s = a @ w @ b)"
proof (induction s)
  case Nil
  then show ?case by auto
next
  case (Cons c cs)
  show ?case
  proof
    assume "str_in w (c # cs)"
    then consider "startswith (c # cs) w" | "str_in w cs" by auto
    then show "\<exists>a b. c # cs = a @ w @ b"
    proof cases
      case 1
      then obtain b where "c # cs = w @ b" by (auto simp: startswith_iff)
      then have "c # cs = [] @ w @ b" by simp
      then show ?thesis by blast
    next
      case 2
      then obtain a b where "cs = a @ w @ b" using Cons.IH by blast
      then have "c # cs = (c # a) @ w @ b" by simp
      then show ?thesis by blast
    qed
  next
    assume "\<exists>a b. c # cs = a @ w @ b"
    then obtain a b where ab: "c # cs = a @ w @ b" by blast
    show "str_in w (c # cs)"
    proof (cases a)
      case Nil
      with ab have "startswith (c # cs) w" by (auto simp: startswith_iff)
      then show ?thesis by simp
    next
      case (Cons a0 as)
      with ab have "cs = as @ w @ b" by simp
      then have "str_in w cs" using Cons.IH by blast
      then show ?thesis by simp
    qed
  qed
qed

lemma lower_chunk_fixed:
  "list_all (\<lambda>c. c < 128 \<and> ascii_lower c = c) w \<Longrightarrow>
     concat (map (lower_at ucd s) (enumerate k w)) = w"
  by (induction w arbitrary: k) (auto simp: lower_at_def)

lemma str_lower_keeps:
  assumes "list_all (\<lambda>c. c < 128 \<and> ascii_lower c = c) w" and "str_in w s"
  shows "str_in w (str_lower ucd s)"
proof -
  from assms(2) obtain a b where s: "s = a @ w @ b" by (auto simp: str_in_iff)
  have "str_lower ucd s =
      concat (map (lower_at ucd s) (enumerate 0 a)) @ w @
      concat (map (lower_at ucd s) (enumerate (length a + length w) b))"
    unfolding str_lower_def
    by (subst s) (simp add: enumerate_append_eq lower_chunk_fixed [OF assms(1)] add.commute)
  then show ?thesis unfolding str_in_iff by blast
qed

lemma str_lower_ascii:
  "list_all (\<lambda>c. c < 128) s \<Longrightarrow> str_lower ucd s = map ascii_lower s"
proof -
  have "list_all (\<lambda>c. c < 128) w \<Longrightarrow>
      concat (map (lower_at ucd s) (enumerate k w)) = map ascii_lower w" for w k
    by (induction w arbitrary: k) (auto simp: lower_at_def)
  then show "list_all (\<lambda>c. c < 128) s \<Longrightarrow> str_lower ucd s = map ascii_lower s"
    unfolding str_lower_def by blast
qed

lemma strip_empty_iff: "strip s = [] \<longleftrightarrow> list_all isspace s"
proof
  assume "strip s = []"
  then have "dropWhile isspace (rev (dropWhile isspace s)) = []"
    by (simp add: strip_def)
  then have all: "\<forall>c \<in> set (dropWhile isspace s). isspace c"
    by simp
  have "dropWhile isspace s = []"
  proof (rule ccontr)
    assume ne: "dropWhile isspace s \<noteq> []"
    then have "\<not> isspace (hd (dropWhile isspace s))" by (rule hd_dropWhile)
    moreover from ne have "hd (dropWhile isspace s) \<in> set (dropWhile isspace s)" by simp
    ultimately show False using all by blast
  qed
  then show "list_all isspace s" by (simp add: list_all_iff)
next
  assume "list_all isspace s"
  then show "strip s = []"
    by (auto simp: strip_def list_all_iff dest: set_dropWhileD)
qed

section \<open>Properties of the classifier\<close>

lemma labels_distinct:
  "distinct [MARIAGE, SEMINAIRE, SALON, CREATIVITE, BUDGET, PLANIFICATION]"
  by (simp add: MARIAGE_def SEMINAIRE_def SALON_def CREATIVITE_def BUDGET_def
      PLANIFICATION_def ascii_def)

lemma mariage_fixed: "list_all (\<lambda>c. c < 128 \<and> ascii_lower c = c) (ascii ''mariage'')"
  by (simp add: ascii_def ascii_lower_def)

lemma filename_mariage:
  assumes "str_in (ascii ''mariage'') filename
    \<or> str_in (ascii ''mariage'') (str_lower ucd filename)"
  shows "detect_type_from_filename ucd filename = MARIAGE"
proof -
  from assms have "str_in (ascii ''mariage'') (str_lower ucd filename)"
    using str_lower_keeps [OF mariage_fixed] by blast
  then show ?thesis by (simp add: detect_type_from_filename_def)
qed

lemmas classify_eval =
  str_lower_ascii ascii_def ascii_lower_def any_in_def fiancailles_def theme_accent_def
  decoration_def idees_accent_def creatif_accent_def cout_def etapes_def

text \<open>
  Claim C1. For every file name, \<open>detect_type_from_filename\<close> gives what the rule table of
  the specification gives on the lower-cased name: the rules are tried from the top
  (mariage, then logistique or conference, salon, theme or idee or creatif or ambiance,
  budget or finance, planning or programme), the first rule that matches decides, and
  SEMINAR is the answer when none matches. A name that contains \<open>mariage\<close>, as written or
  after lower-casing, is WEDDING whatever else it contains: \<open>mariage_budget.pdf\<close> is
  WEDDING and not BUDGET. The name \<open>rapport.pdf\<close> is SEMINAR.
\<close>

theorem detect_type_from_filename_first_match:
  "detect_type_from_filename ucd filename = first_match filename_rules (str_lower ucd filename)
   \<and> (str_in (ascii ''mariage'') filename
        \<or> str_in (ascii ''mariage'') (str_lower ucd filename)
        \<longrightarrow> detect_type_from_filename ucd filename = WEDDING)
   \<and> detect_type_from_filename ucd (ascii ''mariage_budget.pdf'') = WEDDING
   \<and> WEDDING \<noteq> BUDGET
   \<and> detect_type_from_filename ucd (ascii ''rapport.pdf'') = SEMINAR"
proof (intro conjI impI)
  show "detect_type_from_filename ucd filename
      = first_match filename_rules (str_lower ucd filename)"
    by (simp add: detect_type_from_filename_def filename_rules_def any_in_def)
  show "detect_type_from_filename ucd filename = WEDDING"
    if "str_in (ascii ''mariage'') filename
      \<or> str_in (ascii ''mariage'') (str_lower ucd filename)"
    using that by (rule filename_mariage)
  show "detect_type_from_filename ucd (ascii ''mariage_budget.pdf'') = WEDDING"
    by (simp add: detect_type_from_filename_def classify_eval)
  show "WEDDING \<noteq> BUDGET"
    using labels_distinct by simp
  show "detect_type_from_filename ucd (ascii ''rapport.pdf'') = SEMINAR"
    by (simp add: detect_type_from_filename_def classify_eval)
qed

text \<open>
  The name \<open>Budget_MARIAGE.pdf\<close> contains \<open>mariage\<close> only after lower-casing, and \<open>budget\<close>
  as well: it is WEDDING.
\<close>

theorem detect_type_from_filename_first_match_witness:
  "\<not> str_in (ascii ''mariage'') (ascii ''Budget_MARIAGE.pdf'')
   \<and> str_in (ascii ''mariage'') (str_lower ucd_keep (ascii ''Budget_MARIAGE.pdf''))
   \<and> detect_type_from_filename ucd_keep (ascii ''Budget_MARIAGE.pdf'') = WEDDING"
proof -
  have a: "\<not> str_in (ascii ''mariage'') (ascii ''Budget_MARIAGE.pdf'')"
    by (simp add: ascii_def)
  have b: "str_in (ascii ''mariage'') (str_lower ucd_keep (ascii ''Budget_MARIAGE.pdf''))"
    by (simp add: classify_eval)
  show ?thesis
    using a b
      detect_type_from_filename_first_match [of ucd_keep "ascii ''Budget_MARIAGE.pdf''"]
    by blast
qed

text \<open>
  Claim C2. For every question, \<open>detect_event_type\<close> gives what the question rule table
  gives on the lower-cased text: wedding keywords first, then the exhibition, creativity,
  budget and planning keywords, the first rule that matches decides, SEMINAR otherwise.
  The question \<open>Quel budget pour un mariage?\<close> contains a budget keyword and is WEDDING,
  which is not BUDGET.
\<close>

theorem detect_event_type_first_match:
  "detect_event_type ucd question = first_match question_rules (str_lower ucd question)
   \<and> detect_event_type ucd (ascii ''Quel budget pour un mariage?'') = WEDDING
   \<and> str_in (ascii ''budget'') (str_lower ucd (ascii ''Quel budget pour un mariage?''))
   \<and> WEDDING \<noteq> BUDGET"
proof (intro conjI)
  show "detect_event_type ucd question = first_match question_rules (str_lower ucd question)"
    by (simp add: detect_event_type_def question_rules_def)
  show "detect_event_type ucd (ascii ''Quel budget pour un mariage?'') = WEDDING"
    by (simp add: detect_event_type_def classify_eval)
  show "str_in (ascii ''budget'') (str_lower ucd (ascii ''Quel budget pour un mariage?''))"
    by (simp add: classify_eval)
  show "WEDDING \<noteq> BUDGET"
    using labels_distinct by simp
qed



section \<open>Properties of the prompts and of the question handler\<close>

lemma prompt_map_lookup:
  "map_of prompt_map BUDGET = Some (prompt_for budget_template)"
  "map_of prompt_map PLANIFICATION = Some (prompt_for planification_template)"
  "map_of prompt_map SEMINAIRE = Some (prompt_for seminaire_template)"
  "map_of prompt_map MARIAGE = Some (prompt_for mariage_template)"
  "map_of prompt_map SALON = Some (prompt_for salon_template)"
  "map_of prompt_map CREATIVITE = Some (prompt_for creativite_template)"
  using labels_distinct by (auto simp: prompt_map_def)

lemma default_prompt_eq: "default_prompt = prompt_for seminaire_template"
  by (simp add: default_prompt_def prompt_map_lookup)

lemma detect_event_type_cases:
  "detect_event_type ucd question
     \<in> set [MARIAGE, SALON, CREATIVITE, BUDGET, PLANIFICATION, SEMINAIRE]"
  by (simp add: detect_event_type_def Let_def)

lemma detect_event_type_key:
  "detect_event_type ucd question \<in> fst ` set prompt_map"
  using detect_event_type_cases [of ucd question] by (auto simp: prompt_map_def)

lemma bound_prompt_in_map:
  "map_of prompt_map (detect_event_type ucd question)
     = Some (dict_get prompt_map (detect_event_type ucd question) default_prompt)"
proof -
  obtain p where "map_of prompt_map (detect_event_type ucd question) = Some p"
    using detect_event_type_key [of ucd question]
    by (metis domD dom_map_of_conv_image_fst)
  then show ?thesis by (simp add: dict_get_def)
qed

lemma templates_differ:
  "prompt_for mariage_template \<noteq> prompt_for seminaire_template"
  "prompt_for mariage_template \<noteq> prompt_for budget_template"
  "prompt_for salon_template \<noteq> prompt_for mariage_template"
  by (simp_all add: prompt_for_def mariage_template_def seminaire_template_def
      budget_template_def salon_template_def ascii_def)

lemma chain_calls_generate:
  "chain_calls (snd (generate invoke question ch))
     = chain_calls ch @ [(chain_prompt ch, question)]"
  by (simp add: generate_def Let_def split: sum.splits)

lemma chain_prompt_generate:
  "chain_prompt (snd (generate invoke question ch)) = chain_prompt ch"
  by (simp add: generate_def Let_def split: sum.splits)

lemma ask_question_nonblank:
  assumes "\<not> list_all isspace question"
  shows "ask_question ucd invoke question chat_display ch =
     (chat_display @ [\<lparr>role = ascii ''user'', content = question\<rparr>,
        \<lparr>role = ascii ''assistant'',
         content = fst (generate invoke question (bind_prompt ucd question ch))\<rparr>],
      [], snd (generate invoke question (bind_prompt ucd question ch)))"
  using assms by (simp add: ask_question_def strip_empty_iff split: prod.splits)

lemma ask_question_blank_eq:
  assumes "list_all isspace question"
  shows "ask_question ucd invoke question chat_display ch =
     (chat_display, [10071] @ ascii '' Entrez une question.'', ch)"
  using assms by (simp add: ask_question_def strip_empty_iff)

text \<open>
  Claim C5. For a question that is empty or made of whitespace only, with any history and
  any state of the chain, \<open>ask_question\<close> returns the history as it was, the status
  message that asks for a question, which is not empty, and the chain as it was: no call
  of the collaborator is added.
\<close>

theorem ask_question_blank:
  assumes "list_all isspace question"
  shows "ask_question ucd invoke question chat_display ch =
           (chat_display, [10071] @ ascii '' Entrez une question.'', ch)
         \<and> [10071] @ ascii '' Entrez une question.'' \<noteq> []
         \<and> chain_calls (snd (snd (ask_question ucd invoke question chat_display ch)))
             = chain_calls ch"
  using assms by (simp add: ask_question_blank_eq)

text \<open>A question of a space, a tab and a line feed, and the empty question.\<close>

theorem ask_question_blank_witness:
  "list_all isspace [32, 9, 10]
   \<and> list_all isspace []
   \<and> ask_question ucd_keep fixed_invoke [32, 9, 10]
        [\<lparr>role = ascii ''user'', content = ascii ''Bonjour''\<rparr>] initial_chain
      = ([\<lparr>role = ascii ''user'', content = ascii ''Bonjour''\<rparr>],
         [10071] @ ascii '' Entrez une question.'', initial_chain)
   \<and> chain_calls (snd (snd (ask_question ucd_keep fixed_invoke [] [] initial_chain))) = []"
proof -
  have a: "list_all isspace [32, 9, 10]" and b: "list_all isspace []"
    by (simp_all add: isspace_def)
  have c: "chain_calls initial_chain = []" by (simp add: initial_chain_def)
  show ?thesis
    using a b c
      ask_question_blank [OF a, of ucd_keep fixed_invoke
        "[\<lparr>role = ascii ''user'', content = ascii ''Bonjour''\<rparr>]" initial_chain]
      ask_question_blank [OF b, of ucd_keep fixed_invoke "[]" initial_chain]
    by simp
qed

text \<open>
  Claim C7. For a question that is not blank, the prompt bound in the chain and used by the
  call of the collaborator is the entry of \<open>prompt_map\<close> under the category of the
  question. The keys of the map are the six labels and every category the classifier
  returns is one of them, so the default is never taken; for a key that is not in the map the lookup gives the SEMINAR template,
  which is the default.
\<close>

theorem ask_question_binds_category_prompt:
  "(\<not> list_all isspace question \<longrightarrow>
      (\<exists>p. map_of prompt_map (detect_event_type ucd question) = Some p
        \<and> chain_prompt (snd (snd (ask_question ucd invoke question chat_display ch))) = p
        \<and> chain_calls (snd (snd (ask_question ucd invoke question chat_display ch)))
            = chain_calls ch @ [(p, question)]))
   \<and> detect_event_type ucd question \<in> fst ` set prompt_map
   \<and> (map_of prompt_map category = None \<longrightarrow>
        dict_get prompt_map category default_prompt = prompt_for seminaire_template)
   \<and> map_of prompt_map SEMINAR = Some (prompt_for seminaire_template)
   \<and> map fst prompt_map = [BUDGET, PLANIFICATION, SEMINAR, WEDDING, EXPO, CREATIVITY]
   \<and> distinct (map fst prompt_map)"
proof (intro conjI impI)
  assume nb: "\<not> list_all isspace question"
  let ?p = "dict_get prompt_map (detect_event_type ucd question) default_prompt"
  have "map_of prompt_map (detect_event_type ucd question) = Some ?p"
    by (rule bound_prompt_in_map)
  moreover have "chain_prompt (snd (snd (ask_question ucd invoke question chat_display ch))) = ?p"
    using nb by (simp add: ask_question_nonblank chain_prompt_generate bind_prompt_def)
  moreover have "chain_calls (snd (snd (ask_question ucd invoke question chat_display ch)))
            = chain_calls ch @ [(?p, question)]"
    using nb by (simp add: ask_question_nonblank chain_calls_generate bind_prompt_def)
  ultimately show "\<exists>p. map_of prompt_map (detect_event_type ucd question) = Some p
        \<and> chain_prompt (snd (snd (ask_question ucd invoke question chat_display ch))) = p
        \<and> chain_calls (snd (snd (ask_question ucd invoke question chat_display ch)))
            = chain_calls ch @ [(p, question)]"
    by blast
next
  show "detect_event_type ucd question \<in> fst ` set prompt_map"
    by (rule detect_event_type_key)
next
  assume "map_of prompt_map category = None"
  then show "dict_get prompt_map category default_prompt = prompt_for seminaire_template"
    by (simp add: dict_get_def default_prompt_eq)
next
  show "map_of prompt_map SEMINAR = Some (prompt_for seminaire_template)"
    by (rule prompt_map_lookup)
next
  show "map fst prompt_map = [BUDGET, PLANIFICATION, SEMINAR, WEDDING, EXPO, CREATIVITY]"
    by (simp add: prompt_map_def)
next
  show "distinct (map fst prompt_map)"
    using labels_distinct by (auto simp: prompt_map_def)
qed

lemma detect_budget_mariage:
  "detect_event_type ucd (ascii ''Quel budget pour un mariage?'') = MARIAGE"
  by (simp add: detect_event_type_def classify_eval)

text \<open>
  The question \<open>Quel budget pour un mariage?\<close> is answered with the WEDDING template,
  which differs from the BUDGET template; a label that is no key gets the SEMINAR
  template.
\<close>

theorem ask_question_binds_category_prompt_witness:
  "\<not> list_all isspace (ascii ''Quel budget pour un mariage?'')
   \<and> chain_calls (snd (snd (ask_question ucd_keep fixed_invoke
        (ascii ''Quel budget pour un mariage?'') [] initial_chain)))
      = [(prompt_for mariage_template, ascii ''Quel budget pour un mariage?'')]
   \<and> prompt_for mariage_template \<noteq> prompt_for budget_template
   \<and> map_of prompt_map (ascii ''ANNIVERSAIRE'') = None
   \<and> dict_get prompt_map (ascii ''ANNIVERSAIRE'') default_prompt
        = prompt_for seminaire_template"
proof -
  have a: "\<not> list_all isspace (ascii ''Quel budget pour un mariage?'')"
    by (simp add: isspace_def ascii_def)
  have b: "map_of prompt_map (ascii ''ANNIVERSAIRE'') = None"
    by (simp add: prompt_map_def MARIAGE_def SEMINAIRE_def SALON_def CREATIVITE_def
        BUDGET_def PLANIFICATION_def ascii_def)
  have c: "chain_calls initial_chain = []" by (simp add: initial_chain_def)
  show ?thesis
    using a b c templates_differ(2) detect_budget_mariage [of ucd_keep] prompt_map_lookup(4)
      ask_question_binds_category_prompt [of "ascii ''Quel budget pour un mariage?''"
        ucd_keep fixed_invoke "[]" initial_chain "ascii ''ANNIVERSAIRE''"]
    by auto
qed

text \<open>
  Claim C8, as stated, fails: the template is not bound for the call only. The chain starts
  with the SEMINAR template; after the call for \<open>Un mariage ?\<close> has returned, the shared
  chain holds the WEDDING template, and a later request with an empty question runs in, and
  returns, a chain that still holds it.
\<close>

theorem prompt_binding_outlives_call:
  "chain_prompt initial_chain = prompt_for seminaire_template
   \<and> chain_prompt (snd (snd (ask_question ucd_keep fixed_invoke (ascii ''Un mariage ?'') []
        initial_chain))) = prompt_for mariage_template
   \<and> chain_prompt (snd (snd (ask_question ucd_keep fixed_invoke (ascii ''Un mariage ?'') []
        initial_chain))) \<noteq> chain_prompt initial_chain
   \<and> chain_prompt (snd (snd (ask_question ucd_keep fixed_invoke [] []
        (snd (snd (ask_question ucd_keep fixed_invoke (ascii ''Un mariage ?'') []
           initial_chain)))))) = prompt_for mariage_template"
proof -
  have nb: "\<not> list_all isspace (ascii ''Un mariage ?'')"
    by (simp add: isspace_def ascii_def)
  have ty: "detect_event_type ucd_keep (ascii ''Un mariage ?'') = MARIAGE"
    by (simp add: detect_event_type_def classify_eval)
  have init: "chain_prompt initial_chain = prompt_for seminaire_template"
    by (simp add: initial_chain_def default_prompt_eq)
  have after: "chain_prompt (snd (snd (ask_question ucd_keep fixed_invoke
      (ascii ''Un mariage ?'') [] initial_chain))) = prompt_for mariage_template"
    using nb
    by (simp add: ask_question_nonblank chain_prompt_generate bind_prompt_def ty dict_get_def
        prompt_map_lookup)
  have blank: "ask_question ucd_keep fixed_invoke [] [] ch
      = ([], [10071] @ ascii '' Entrez une question.'', ch)" for ch
    by (simp add: ask_question_blank_eq)
  show ?thesis
    using init after templates_differ(1) by (simp add: blank)
qed

text \<open>
  Claim C8, amended. \<open>ask_question\<close> assigns the selected template to the prompt field of
  the shared chain, where it stays after the call; a blank question leaves the chain as it
  is. Calls made one after the other do not see an earlier binding: a call for a question
  that is not blank binds the template of its own question before its generation call, and
  its answer does not depend on what was bound before. The generation step itself reads
  the template from the shared chain.
\<close>

theorem prompt_binding_sequential:
  "(\<not> list_all isspace question \<longrightarrow>
      chain_prompt (snd (snd (ask_question ucd invoke question chat_display ch)))
        = dict_get prompt_map (detect_event_type ucd question) default_prompt
      \<and> chain_calls (snd (snd (ask_question ucd invoke question chat_display ch)))
        = chain_calls ch
          @ [(dict_get prompt_map (detect_event_type ucd question) default_prompt, question)]
      \<and> fst (ask_question ucd invoke question chat_display (ch\<lparr>chain_prompt := earlier\<rparr>))
        = fst (ask_question ucd invoke question chat_display ch))
   \<and> (list_all isspace question \<longrightarrow>
        snd (snd (ask_question ucd invoke question chat_display ch)) = ch)
   \<and> chain_calls (snd (generate invoke question ch))
        = chain_calls ch @ [(chain_prompt ch, question)]"
proof (intro conjI impI)
  assume nb: "\<not> list_all isspace question"
  show "chain_prompt (snd (snd (ask_question ucd invoke question chat_display ch)))
        = dict_get prompt_map (detect_event_type ucd question) default_prompt"
    using nb by (simp add: ask_question_nonblank chain_prompt_generate bind_prompt_def)
  show "chain_calls (snd (snd (ask_question ucd invoke question chat_display ch)))
        = chain_calls ch
          @ [(dict_get prompt_map (detect_event_type ucd question) default_prompt, question)]"
    using nb by (simp add: ask_question_nonblank chain_calls_generate bind_prompt_def)
  show "fst (ask_question ucd invoke question chat_display (ch\<lparr>chain_prompt := earlier\<rparr>))
        = fst (ask_question ucd invoke question chat_display ch)"
    using nb
    by (simp add: ask_question_nonblank bind_prompt_def generate_def Let_def split: sum.splits)
next
  assume "list_all isspace question"
  then show "snd (snd (ask_question ucd invoke question chat_display ch)) = ch"
    by (simp add: ask_question_blank_eq)
next
  show "chain_calls (snd (generate invoke question ch))
        = chain_calls ch @ [(chain_prompt ch, question)]"
    by (rule chain_calls_generate)
qed

text \<open>
  A chain left with the WEDDING template by an earlier call: the call for \<open>Un salon ?\<close>
  runs with the EXPO template, and a blank question leaves the chain as it was.
\<close>

theorem prompt_binding_sequential_witness:
  "\<not> list_all isspace (ascii ''Un salon ?'')
   \<and> chain_prompt (initial_chain\<lparr>chain_prompt := prompt_for mariage_template\<rparr>)
       = prompt_for mariage_template
   \<and> chain_calls (snd (snd (ask_question ucd_keep fixed_invoke (ascii ''Un salon ?'') []
        (initial_chain\<lparr>chain_prompt := prompt_for mariage_template\<rparr>))))
       = [(prompt_for salon_template, ascii ''Un salon ?'')]
   \<and> prompt_for salon_template \<noteq> prompt_for mariage_template
   \<and> list_all isspace [32]
   \<and> snd (snd (ask_question ucd_keep fixed_invoke [32] []
        (initial_chain\<lparr>chain_prompt := prompt_for mariage_template\<rparr>)))
       = initial_chain\<lparr>chain_prompt := prompt_for mariage_template\<rparr>"
proof -
  have nb: "\<not> list_all isspace (ascii ''Un salon ?'')"
    by (simp add: isspace_def ascii_def)
  have bl: "list_all isspace [32]"
    by (simp add: isspace_def)
  have ty: "detect_event_type ucd_keep (ascii ''Un salon ?'') = SALON"
    by (simp add: detect_event_type_def classify_eval)
  have sel: "dict_get prompt_map SALON default_prompt = prompt_for salon_template"
    by (simp add: dict_get_def prompt_map_lookup)
  have c: "chain_calls initial_chain = []" by (simp add: initial_chain_def)
  show ?thesis
    using nb bl templates_differ(3)
      prompt_binding_sequential [of "ascii ''Un salon ?''" ucd_keep fixed_invoke "[]"
        "initial_chain\<lparr>chain_prompt := prompt_for mariage_template\<rparr>"]
      prompt_binding_sequential [of "[32]" ucd_keep fixed_invoke "[]"
        "initial_chain\<lparr>chain_prompt := prompt_for mariage_template\<rparr>"]
    by (simp add: ty sel c)
qed

section \<open>Properties of the retriever\<close>

text \<open>
  Claim C9. \<open>create_retriever\<close> builds the index over the documents the specification
  names, whatever the splitter and the vector store are: over an empty store, the one
  placeholder document with the welcome text and the category SEMINAR; over a store that is
  not empty, one document per stored row, with the content, title and category of the row.
  The list of documents is never empty.
\<close>

theorem create_retriever_never_empty:
  "create_retriever split_documents from_documents rows
     = from_documents (split_documents (index_input rows))
   \<and> index_input rows \<noteq> []
   \<and> index_input [] = [dummy_doc]
   \<and> page_content dummy_doc
       = ascii ''Bienvenue sur EventBot Pro. Aucun document n'est encore disponible.''
   \<and> map_of (metadata dummy_doc) (ascii ''type'') = Some SEMINAR
   \<and> index_input (r # rs) = load_documents_from_db (r # rs)
   \<and> map page_content (load_documents_from_db rows) = map doc_content rows
   \<and> map metadata (load_documents_from_db rows)
       = map (\<lambda>row. [(ascii ''title'', doc_title row), (ascii ''type'', doc_type row)]) rows"
  by (simp add: create_retriever_def index_input_def load_documents_from_db_def
      dummy_doc_def ascii_def)

section \<open>Properties of the ingestion\<close>






















section \<open>Properties of the question handler with every exception\<close>

lemma ask_question_exc_lift:
  "ask_question_exc ucd (lift_invoke invoke) quiet_print question chat_display ch =
     (case ask_question ucd invoke question chat_display ch of
        (chat_display', status, ch') \<Rightarrow> (Inr status, chat_display', ch'))"
  by (auto simp: ask_question_exc_def ask_question_def generate_exc_def generate_def
      lift_invoke_def quiet_print_def Let_def split: sum.splits prod.splits)

text \<open>
  Claim C6, as stated, fails: not every exception of the call is caught. When the chain is
  interrupted from the keyboard, the exception leaves \<open>ask_question\<close> and no turn is
  appended; when the chain raises an error whose message the output cannot encode, the
  print of the handler raises and that exception leaves the function.
\<close>

theorem ask_question_exc_propagates:
  "\<not> list_all isspace (ascii ''Un salon ?'')
   \<and> interrupt_invoke
        (dict_get prompt_map (detect_event_type ucd_keep (ascii ''Un salon ?'')) default_prompt)
        (ascii ''Un salon ?'') = Inl (Not_Exception (ascii ''KeyboardInterrupt''))
   \<and> fst (ask_question_exc ucd_keep interrupt_invoke quiet_print (ascii ''Un salon ?'') []
        initial_chain) = Inl (Not_Exception (ascii ''KeyboardInterrupt''))
   \<and> fst (snd (ask_question_exc ucd_keep interrupt_invoke quiet_print (ascii ''Un salon ?'') []
        initial_chain)) = []
   \<and> fst (ask_question_exc ucd_keep unfound_invoke narrow_print (ascii ''Un salon ?'') []
        initial_chain)
       = Inl (Of_Exception (Exception (ascii ''codec cannot encode character'')))"
  by (simp add: ask_question_exc_def generate_exc_def interrupt_invoke_def unfound_invoke_def
      quiet_print_def narrow_print_def strip_empty_iff isspace_def ascii_def)

text \<open>
  Claim C6, amended. For a question that is not blank: when the call of the chain raises an
  instance of \<^verbatim>\<open>Exception\<close> and the print of the handler raises nothing, \<open>ask_question\<close>
  catches the exception and returns the empty status, with a user turn holding the question
  and then an assistant turn holding the fixed error answer appended to the history. An
  exception outside the class \<^verbatim>\<open>Exception\<close> is not caught: it leaves the function and no
  turn is appended.
\<close>

theorem ask_question_exc_handles_exception:
  "(\<not> list_all isspace question
      \<and> invoke (dict_get prompt_map (detect_event_type ucd question) default_prompt) question
          = Inl (Of_Exception e)
      \<and> print_raises (ascii ''Erreur : '' @ str_of e) = None
     \<longrightarrow> ask_question_exc ucd invoke print_raises question chat_display ch =
           (Inr [],
            chat_display @
              [\<lparr>role = ascii ''user'', content = question\<rparr>,
               \<lparr>role = ascii ''assistant'',
                content = ascii ''Erreur lors de la g'' @ [233] @ ascii ''n'' @ [233]
                            @ ascii ''ration.''\<rparr>],
            ch\<lparr>chain_prompt := dict_get prompt_map (detect_event_type ucd question) default_prompt,
               chain_calls := chain_calls ch @
                 [(dict_get prompt_map (detect_event_type ucd question) default_prompt,
                   question)],
               chain_stdout := chain_stdout ch @ [ascii ''Erreur : '' @ str_of e]\<rparr>))
   \<and> (\<not> list_all isspace question
      \<and> invoke (dict_get prompt_map (detect_event_type ucd question) default_prompt) question
          = Inl (Not_Exception n)
     \<longrightarrow> ask_question_exc ucd invoke print_raises question chat_display ch =
           (Inl (Not_Exception n), chat_display,
            ch\<lparr>chain_prompt := dict_get prompt_map (detect_event_type ucd question) default_prompt,
               chain_calls := chain_calls ch @
                 [(dict_get prompt_map (detect_event_type ucd question) default_prompt,
                   question)]\<rparr>))"
  by (simp add: ask_question_exc_def generate_exc_def bind_prompt_def Let_def strip_empty_iff)

text \<open>
  A chain that refuses the connection, with a print that never raises, and a chain that is
  interrupted.
\<close>

theorem ask_question_exc_handles_exception_witness:
  "\<not> list_all isspace (ascii ''Un salon ?'')
   \<and> lift_invoke failing_invoke
        (dict_get prompt_map (detect_event_type ucd_keep (ascii ''Un salon ?'')) default_prompt)
        (ascii ''Un salon ?'') = Inl (Of_Exception (Exception (ascii ''connection refused'')))
   \<and> quiet_print (ascii ''Erreur : '' @ str_of (Exception (ascii ''connection refused''))) = None
   \<and> fst (ask_question_exc ucd_keep (lift_invoke failing_invoke) quiet_print
        (ascii ''Un salon ?'') [] initial_chain) = Inr []
   \<and> fst (snd (ask_question_exc ucd_keep (lift_invoke failing_invoke) quiet_print
        (ascii ''Un salon ?'') [] initial_chain))
       = [\<lparr>role = ascii ''user'', content = ascii ''Un salon ?''\<rparr>,
          \<lparr>role = ascii ''assistant'',
           content = ascii ''Erreur lors de la g'' @ [233] @ ascii ''n'' @ [233]
                       @ ascii ''ration.''\<rparr>]
   \<and> fst (ask_question_exc ucd_keep interrupt_invoke quiet_print (ascii ''Un salon ?'') []
        initial_chain) = Inl (Not_Exception (ascii ''KeyboardInterrupt''))"
proof -
  have a: "\<not> list_all isspace (ascii ''Un salon ?'')"
    by (simp add: isspace_def ascii_def)
  have b: "lift_invoke failing_invoke
        (dict_get prompt_map (detect_event_type ucd_keep (ascii ''Un salon ?'')) default_prompt)
        (ascii ''Un salon ?'') = Inl (Of_Exception (Exception (ascii ''connection refused'')))"
    by (simp add: lift_invoke_def failing_invoke_def)
  have c: "quiet_print (ascii ''Erreur : '' @ str_of (Exception (ascii ''connection refused'')))
      = None"
    by (simp add: quiet_print_def)
  have d: "interrupt_invoke
        (dict_get prompt_map (detect_event_type ucd_keep (ascii ''Un salon ?'')) default_prompt)
        (ascii ''Un salon ?'') = Inl (Not_Exception (ascii ''KeyboardInterrupt''))"
    by (simp add: interrupt_invoke_def)
  show ?thesis
    using a b c d
      ask_question_exc_handles_exception [where ucd = ucd_keep
        and invoke = "lift_invoke failing_invoke" and print_raises = quiet_print
        and question = "ascii ''Un salon ?''" and chat_display = "[]" and ch = initial_chain
        and e = "Exception (ascii ''connection refused'')"]
      ask_question_exc_handles_exception [where ucd = ucd_keep
        and invoke = interrupt_invoke and print_raises = quiet_print
        and question = "ascii ''Un salon ?''" and chat_display = "[]" and ch = initial_chain
        and n = "ascii ''KeyboardInterrupt''"]
    by simp
qed

section \<open>Properties of the ingestion with every exception\<close>


























end
